theory Spec2Isabelle
  imports Complex_Main
begin

section \<open>Data model (models.py)\<close>

text \<open>
  The four tables of \<^verbatim>\<open>models.py\<close>. A table is the list of its rows in storage order;
  \<^verbatim>\<open>query(...).filter(...).first()\<close> is the first row of the filtered list. A
  \<^verbatim>\<open>datetime\<close> is a number of microseconds since the epoch; a nullable column is an
  option. Python text is kept as \<^typ>\<open>string\<close>; the two non-ASCII marks of the log
  lines are written as their UTF-8 bytes.
\<close>

type_synonym datetime = int

datatype ProjectStatus = ACTIVE | INACTIVE | ERROR

datatype DeploymentStatus = PENDING | BUILDING | DEPLOYING | SUCCESS | FAILED | CANCELLED

record User =
  u_id :: nat
  email :: string
  hashed_password :: string
  u_created_at :: datetime
  is_active :: bool
  is_admin :: bool

record Project =
  p_id :: nat
  name :: string
  github_url :: string
  p_status :: ProjectStatus
  user_id :: nat
  p_created_at :: datetime

record Deployment =
  d_id :: nat
  project_id :: nat
  status :: DeploymentStatus
  logs :: string
  started_at :: datetime
  completed_at :: "datetime option"

record RefreshToken =
  t_id :: nat
  token :: string
  t_user_id :: nat
  expires_at :: datetime
  t_created_at :: datetime

record Session =
  users :: "User list"
  projects :: "Project list"
  deployments :: "Deployment list"
  refresh_tokens :: "RefreshToken list"

text \<open>
  The exceptions a handler can leave with: \<^verbatim>\<open>HTTPException(status_code, detail)\<close>,
  which the framework turns into a response with that status, and the Python and database
  exceptions no handler catches (a response with status 500).
\<close>

datatype exn =
  HTTPException nat string | ZeroDivisionError | ValueError | TypeError | IntegrityError

fun status_code :: "exn \<Rightarrow> nat" where
  "status_code (HTTPException c d) = c"
| "status_code e = 500"

text \<open>\<^verbatim>\<open>.first()\<close>: the first row, or \<^verbatim>\<open>None\<close>.\<close>

fun first :: "'a list \<Rightarrow> 'a option" where
  "first [] = None"
| "first (x # xs) = Some x"

text \<open>The value of a \<^verbatim>\<open>DeploymentStatus\<close> member.\<close>

fun status_value :: "DeploymentStatus \<Rightarrow> string" where
  "status_value PENDING = ''pending''"
| "status_value BUILDING = ''building''"
| "status_value DEPLOYING = ''deploying''"
| "status_value SUCCESS = ''success''"
| "status_value FAILED = ''failed''"
| "status_value CANCELLED = ''cancelled''"

text \<open>
  An autoincrement primary key: one more than the largest key in the table.
\<close>

definition next_id :: "nat list \<Rightarrow> nat" where
  "next_id ids = Suc (fold max ids 0)"

text \<open>
  \<^verbatim>\<open>db.commit()\<close> after attributes of a loaded row were assigned: the row with that primary
  key is rewritten.
\<close>

definition update_deployment :: "nat \<Rightarrow> (Deployment \<Rightarrow> Deployment) \<Rightarrow> Session \<Rightarrow> Session" where
  "update_deployment i f db =
     db\<lparr>deployments := map (\<lambda>d. if d_id d = i then f d else d) (deployments db)\<rparr>"

section \<open>Deployments (routers/deployments.py)\<close>

definition check_mark :: string where
  "check_mark = [CHR 0xE2, CHR 0x9C, CHR 0x93]"

definition cross_mark :: string where
  "cross_mark = [CHR 0xE2, CHR 0x9C, CHR 0x97]"

text \<open>
  \<^verbatim>\<open>db.query(Deployment).join(Project).filter(Deployment.id == deployment_id,
  Project.user_id == current_user.id).first()\<close>: the join is on the foreign key
  \<^verbatim>\<open>Deployment.project_id\<close>.
\<close>

definition owned_deployment :: "Session \<Rightarrow> nat \<Rightarrow> User \<Rightarrow> Deployment option" where
  "owned_deployment db deployment_id current_user =
     first (filter (\<lambda>d. d_id d = deployment_id \<and>
                          list_ex (\<lambda>p. p_id p = project_id d \<and> user_id p = u_id current_user)
                                  (projects db))
                   (deployments db))"

text \<open>\<^verbatim>\<open>db.query(Project).filter(Project.id == project_id, Project.user_id == current_user.id).first()\<close>\<close>

definition owned_project :: "Session \<Rightarrow> nat \<Rightarrow> User \<Rightarrow> Project option" where
  "owned_project db pid current_user =
     first (filter (\<lambda>p. p_id p = pid \<and> user_id p = u_id current_user) (projects db))"

definition is_terminal :: "DeploymentStatus \<Rightarrow> bool" where
  "is_terminal s = (s \<in> set [SUCCESS, FAILED, CANCELLED])"

text \<open>
  \<^verbatim>\<open>cancel_deployment\<close>. The handler returns the session it leaves behind and either
  the exception it raised or its response message; \<open>now\<close> is \<^verbatim>\<open>datetime.utcnow()\<close>.
\<close>

definition cancel_deployment ::
  "Session \<Rightarrow> nat \<Rightarrow> User \<Rightarrow> datetime \<Rightarrow> Session \<times> (exn + string)" where
  "cancel_deployment db deployment_id current_user now =
     (case owned_deployment db deployment_id current_user of
        None \<Rightarrow> (db, Inl (HTTPException 404 ''Deployment not found''))
      | Some deployment \<Rightarrow>
          if status deployment \<in> set [SUCCESS, FAILED, CANCELLED]
          then (db, Inl (HTTPException 400
                  (''Cannot cancel deployment with status: '' @ status_value (status deployment))))
          else (update_deployment (d_id deployment)
                  (\<lambda>d. d\<lparr>status := CANCELLED, completed_at := Some now,
                         logs := logs deployment @ ''\<newline>'' @ cross_mark
                                   @ '' Deployment cancelled by user\<newline>''\<rparr>) db,
                Inr ''Deployment cancelled successfully''))"

text \<open>
  \<^verbatim>\<open>trigger_deployment\<close>: the new row gets the next primary key, \<^verbatim>\<open>started_at\<close> from the
  server default \<^verbatim>\<open>now()\<close> and no completion time. The handler's caller schedules
  \<^verbatim>\<open>simulate_deployment\<close> for the returned row.
\<close>

definition trigger_deployment ::
  "Session \<Rightarrow> nat \<Rightarrow> User \<Rightarrow> datetime \<Rightarrow> Session \<times> (exn + Deployment)" where
  "trigger_deployment db pid current_user now =
     (case owned_project db pid current_user of
        None \<Rightarrow> (db, Inl (HTTPException 404 ''Project not found''))
      | Some project \<Rightarrow>
          let deployment = \<lparr>d_id = next_id (map d_id (deployments db)), project_id = pid,
                             status = PENDING, logs = ''Deployment queued...\<newline>'',
                             started_at = now, completed_at = None\<rparr>
          in (db\<lparr>deployments := deployments db @ [deployment]\<rparr>, Inr deployment))"

definition get_deployment :: "Session \<Rightarrow> nat \<Rightarrow> User \<Rightarrow> Session \<times> (exn + Deployment)" where
  "get_deployment db deployment_id current_user =
     (case owned_deployment db deployment_id current_user of
        None \<Rightarrow> (db, Inl (HTTPException 404 ''Deployment not found''))
      | Some deployment \<Rightarrow> (db, Inr deployment))"

definition get_deployment_logs :: "Session \<Rightarrow> nat \<Rightarrow> User \<Rightarrow> Session \<times> (exn + string)" where
  "get_deployment_logs db deployment_id current_user =
     (case owned_deployment db deployment_id current_user of
        None \<Rightarrow> (db, Inl (HTTPException 404 ''Deployment not found''))
      | Some deployment \<Rightarrow> (db, Inr (logs deployment)))"

subsection \<open>The background simulator\<close>

text \<open>
  \<^verbatim>\<open>simulate_deployment\<close> is a coroutine that commits four times. Its control points are
  the places where it waits or has just committed; one step runs it from a control point to
  its next commit. The session expires a loaded row at every commit
  (\<^verbatim>\<open>sessionmaker(autocommit=False, autoflush=False, bind=engine)\<close>), so
  \<^verbatim>\<open>deployment.logs += ...\<close> reads the stored log again, and a commit writes the assigned
  columns only. A step that finds the row gone ends the task (the first step by its
  \<^verbatim>\<open>return\<close>, a later one by the exception of the expired row). \<open>r\<close> is the value of
  \<^verbatim>\<open>random.random()\<close>, \<open>now\<close> that of \<^verbatim>\<open>datetime.utcnow()\<close>.
\<close>

datatype sim_pc = Initial_delay | Build_delay | Build_logged | Deploy_delay | Returned

definition deployment_row :: "Session \<Rightarrow> nat \<Rightarrow> Deployment option" where
  "deployment_row db deployment_id = first (filter (\<lambda>d. d_id d = deployment_id) (deployments db))"

fun simulate_deployment :: "sim_pc \<Rightarrow> nat \<Rightarrow> rat \<Rightarrow> datetime \<Rightarrow> Session \<Rightarrow> Session \<times> sim_pc" where
  "simulate_deployment Initial_delay deployment_id r now db =
     (case deployment_row db deployment_id of
        None \<Rightarrow> (db, Returned)
      | Some deployment \<Rightarrow>
          (update_deployment deployment_id
             (\<lambda>d. d\<lparr>status := BUILDING, logs := ''Starting build process...\<newline>''\<rparr>) db,
           Build_delay))"
| "simulate_deployment Build_delay deployment_id r now db =
     (case deployment_row db deployment_id of
        None \<Rightarrow> (db, Returned)
      | Some deployment \<Rightarrow>
          (update_deployment deployment_id
             (\<lambda>d. d\<lparr>logs := logs d @ check_mark @ '' Dependencies installed\<newline>''
                                 @ check_mark @ '' Building application...\<newline>''\<rparr>) db,
           Build_logged))"
| "simulate_deployment Build_logged deployment_id r now db =
     (case deployment_row db deployment_id of
        None \<Rightarrow> (db, Returned)
      | Some deployment \<Rightarrow>
          (update_deployment deployment_id
             (\<lambda>d. d\<lparr>status := DEPLOYING,
                     logs := logs d @ check_mark @ '' Build completed successfully\<newline>''
                                 @ ''Starting deployment...\<newline>''\<rparr>) db,
           Deploy_delay))"
| "simulate_deployment Deploy_delay deployment_id r now db =
     (case deployment_row db deployment_id of
        None \<Rightarrow> (db, Returned)
      | Some deployment \<Rightarrow>
          (update_deployment deployment_id
             (\<lambda>d. if r > 2 / 10
                   then d\<lparr>status := SUCCESS,
                          logs := logs d @ check_mark @ '' Deployment completed successfully!\<newline>'',
                          completed_at := Some now\<rparr>
                   else d\<lparr>status := FAILED,
                          logs := logs d @ cross_mark @ '' Deployment failed: Build timeout\<newline>'',
                          completed_at := Some now\<rparr>) db,
           Returned))"
| "simulate_deployment Returned deployment_id r now db = (db, Returned)"

subsection \<open>Request handlers and simulator tasks interleaved\<close>

text \<open>
  The server state is the database and the control point of every scheduled simulator
  task. An event is one handler call or one step of one task; a run is a sequence of
  events.
\<close>

record Server =
  session :: Session
  tasks :: "nat \<rightharpoonup> sim_pc"

datatype event =
    Trigger nat User datetime
  | Cancel nat User datetime
  | Advance nat rat datetime

fun apply_event :: "event \<Rightarrow> Server \<Rightarrow> Server" where
  "apply_event (Trigger pid current_user now) s =
     (case trigger_deployment (session s) pid current_user now of
        (db, Inl e) \<Rightarrow> s\<lparr>session := db\<rparr>
      | (db, Inr deployment) \<Rightarrow>
          s\<lparr>session := db, tasks := (tasks s)(d_id deployment \<mapsto> Initial_delay)\<rparr>)"
| "apply_event (Cancel deployment_id current_user now) s =
     s\<lparr>session := fst (cancel_deployment (session s) deployment_id current_user now)\<rparr>"
| "apply_event (Advance deployment_id r now) s =
     (case tasks s deployment_id of
        None \<Rightarrow> s
      | Some pc \<Rightarrow>
          (case simulate_deployment pc deployment_id r now (session s) of
             (db, pc') \<Rightarrow> s\<lparr>session := db, tasks := (tasks s)(deployment_id \<mapsto> pc')\<rparr>))"

definition run :: "event list \<Rightarrow> Server \<Rightarrow> Server" where
  "run events s = fold apply_event events s"

definition status_of :: "Server \<Rightarrow> nat \<Rightarrow> DeploymentStatus option" where
  "status_of s deployment_id = map_option status (deployment_row (session s) deployment_id)"

definition completed_of :: "Server \<Rightarrow> nat \<Rightarrow> datetime option option" where
  "completed_of s deployment_id = map_option completed_at (deployment_row (session s) deployment_id)"

definition logs_of :: "Server \<Rightarrow> nat \<Rightarrow> string option" where
  "logs_of s deployment_id = map_option logs (deployment_row (session s) deployment_id)"

section \<open>Projects (routers/projects.py)\<close>

record ProjectCreate =
  pc_name :: string
  pc_github_url :: string

definition get_project :: "Session \<Rightarrow> nat \<Rightarrow> User \<Rightarrow> Session \<times> (exn + Project)" where
  "get_project db pid current_user =
     (case owned_project db pid current_user of
        None \<Rightarrow> (db, Inl (HTTPException 404 ''Project not found''))
      | Some project \<Rightarrow> (db, Inr project))"

definition update_project ::
  "Session \<Rightarrow> nat \<Rightarrow> ProjectCreate \<Rightarrow> User \<Rightarrow> Session \<times> (exn + Project)" where
  "update_project db pid project_update current_user =
     (case owned_project db pid current_user of
        None \<Rightarrow> (db, Inl (HTTPException 404 ''Project not found''))
      | Some project \<Rightarrow>
          let project' = project\<lparr>name := pc_name project_update,
                                  github_url := pc_github_url project_update\<rparr>
          in (db\<lparr>projects := map (\<lambda>p. if p_id p = p_id project then project' else p)
                                  (projects db)\<rparr>,
              Inr project'))"

text \<open>
  \<^verbatim>\<open>delete_project\<close>. The \<^verbatim>\<open>deployments\<close> relationship has no delete cascade, so the
  flush sets \<^verbatim>\<open>project_id\<close> of every child row to NULL; the column is
  \<^verbatim>\<open>nullable=False\<close>, and the database refuses the write.
\<close>

definition delete_project :: "Session \<Rightarrow> nat \<Rightarrow> User \<Rightarrow> Session \<times> (exn + unit)" where
  "delete_project db pid current_user =
     (case owned_project db pid current_user of
        None \<Rightarrow> (db, Inl (HTTPException 404 ''Project not found''))
      | Some project \<Rightarrow>
          if list_ex (\<lambda>d. project_id d = p_id project) (deployments db)
          then (db, Inl IntegrityError)
          else (db\<lparr>projects := filter (\<lambda>p. p_id p \<noteq> p_id project) (projects db)\<rparr>, Inr ()))"

section \<open>Analytics (routers/analytics.py, utils/validation.py)\<close>

text \<open>
  A date parameter is a string. \<open>Iso t aware\<close> is one that
  \<^verbatim>\<open>datetime.fromisoformat(s.replace('Z', '+00:00'))\<close> reads as the datetime \<open>t\<close>, which is
  offset-aware when the string ends in \<^verbatim>\<open>Z\<close> or in an offset and naive otherwise;
  \<open>Malformed\<close> is one on which the parser raises \<^verbatim>\<open>ValueError\<close>. A missing (or empty)
  parameter is \<open>None\<close>, and \<^verbatim>\<open>x if x else d\<close> is \<open>or_default x d\<close>.
\<close>

datatype date_arg = Iso datetime bool | Malformed

definition or_default :: "'a option \<Rightarrow> 'a \<Rightarrow> 'a" where
  "or_default x d = (case x of None \<Rightarrow> d | Some v \<Rightarrow> v)"

definition microseconds_per_day :: int where
  "microseconds_per_day = 86400000000"

text \<open>\<^verbatim>\<open>timedelta.days\<close>\<close>

definition days :: "int \<Rightarrow> int" where
  "days delta = delta div microseconds_per_day"

text \<open>\<^verbatim>\<open>timedelta.total_seconds()\<close>\<close>

definition total_seconds :: "int \<Rightarrow> rat" where
  "total_seconds delta = of_int delta / 1000000"

text \<open>
  \<^verbatim>\<open>validate_date_range\<close> catches the parser's \<^verbatim>\<open>ValueError\<close> and nothing else. Python
  refuses to order an offset-aware datetime and a naive one: \<^verbatim>\<open>start > end\<close> raises
  \<^verbatim>\<open>TypeError\<close> then, and the exception leaves the validator.
\<close>

fun validate_date_range :: "date_arg \<Rightarrow> date_arg \<Rightarrow> exn + bool \<times> string" where
  "validate_date_range (Iso start a) (Iso end' b) =
     (if a \<noteq> b then Inl TypeError
      else if start > end' then Inr (False, ''Start date must be before end date'')
      else if days (end' - start) > 365 then Inr (False, ''Date range cannot exceed 1 year'')
      else Inr (True, ''Valid date range''))"
| "validate_date_range start_date end_date =
     Inr (False, ''Invalid date format. Use ISO format: YYYY-MM-DDTHH:MM:SS'')"

text \<open>
  Python's \<^verbatim>\<open>/\<close> raises on a zero divisor. Its float results are modelled by the exact
  quotient.
\<close>

definition truediv :: "rat \<Rightarrow> rat \<Rightarrow> exn + rat" where
  "truediv a b = (if b = 0 then Inl ZeroDivisionError else Inr (a / b))"

text \<open>
  \<^verbatim>\<open>round(x, 2)\<close>: to the nearest hundredth, a tie to the even one. The model rounds the
  exact quotient, Python the float nearest to it, so the two can differ in the last digit
  where the quotient is a tie (23 successes of 160); they agree on 0 and on 100.
\<close>

definition round_half_even :: "rat \<Rightarrow> int" where
  "round_half_even x =
     (let f = \<lfloor>x\<rfloor>; d = x - of_int f
      in if d < 1 / 2 then f else if d > 1 / 2 then f + 1 else if even f then f else f + 1)"

definition round2 :: "rat \<Rightarrow> rat" where
  "round2 x = of_int (round_half_even (x * 100)) / 100"

text \<open>\<^verbatim>\<open>status_counts[status] = status_counts.get(status, 0) + 1\<close> over the deployments.\<close>

definition get_or :: "('k \<rightharpoonup> 'v) \<Rightarrow> 'k \<Rightarrow> 'v \<Rightarrow> 'v" where
  "get_or m k dflt = (case m k of None \<Rightarrow> dflt | Some v \<Rightarrow> v)"

definition count_statuses :: "Deployment list \<Rightarrow> (string \<rightharpoonup> nat)" where
  "count_statuses ds =
     fold (\<lambda>d m. m(status_value (status d) \<mapsto> get_or m (status_value (status d)) 0 + 1))
          ds Map.empty"

text \<open>
  \<^verbatim>\<open>(successful_deployments / total_deployments * 100) if total_deployments > 0 else 0\<close>
\<close>

definition success_rate :: "nat \<Rightarrow> nat \<Rightarrow> exn + rat" where
  "success_rate successful_deployments total_deployments =
     (if total_deployments > 0
      then (case truediv (of_nat successful_deployments) (of_nat total_deployments) of
              Inl e \<Rightarrow> Inl e
            | Inr q \<Rightarrow> Inr (q * 100))
      else Inr 0)"

text \<open>
  The durations of the deployments that have a completion time, and
  \<^verbatim>\<open>sum(times) / len(times) if times else 0\<close>.
\<close>

definition deployment_times :: "Deployment list \<Rightarrow> rat list" where
  "deployment_times ds =
     concat (map (\<lambda>d. case completed_at d of
                         None \<Rightarrow> []
                       | Some c \<Rightarrow> [total_seconds (c - started_at d)]) ds)"

definition avg_deployment_time :: "rat list \<Rightarrow> exn + rat" where
  "avg_deployment_time durations =
     (if durations \<noteq> []
      then truediv (sum_list durations) (of_nat (length durations)) else Inr 0)"

text \<open>
  The two statistics handlers. The model keeps the period, the summary and the status
  breakdown of the response; the trend tables and the echoed project fields are built by
  further loops over the same rows and are left out, as is the ordering of the rows, which
  no kept field depends on. The default dates are naive: \<open>now1\<close> is the handler's first
  reading of \<^verbatim>\<open>datetime.utcnow()\<close>, for the end date, \<open>now2\<close> its second, for the start
  date. The handler lets an exception of the validator pass (a response with status 500).
  The filters on the stored times are evaluated by the database, on the numbers.
\<close>

record UserStats =
  us_days :: int
  us_total_projects :: nat
  us_total_deployments :: nat
  us_success_rate :: rat
  us_avg_deployment_time_seconds :: rat
  us_deployment_status :: "string \<rightharpoonup> nat"

definition between :: "datetime \<Rightarrow> datetime \<Rightarrow> datetime \<Rightarrow> bool" where
  "between x lo hi = (lo \<le> x \<and> x \<le> hi)"

definition user_projects_in_range :: "Session \<Rightarrow> User \<Rightarrow> datetime \<Rightarrow> datetime \<Rightarrow> Project list" where
  "user_projects_in_range db current_user start end' =
     filter (\<lambda>p. user_id p = u_id current_user \<and> between (p_created_at p) start end')
            (projects db)"

definition user_deployments_in_range ::
  "Session \<Rightarrow> User \<Rightarrow> datetime \<Rightarrow> datetime \<Rightarrow> Deployment list" where
  "user_deployments_in_range db current_user start end' =
     filter (\<lambda>d. list_ex (\<lambda>p. p_id p = project_id d \<and> user_id p = u_id current_user)
                          (projects db)
                  \<and> between (started_at d) start end')
            (deployments db)"

definition get_user_analytics ::
  "Session \<Rightarrow> date_arg option \<Rightarrow> date_arg option \<Rightarrow> User \<Rightarrow> datetime \<Rightarrow> datetime
     \<Rightarrow> exn + UserStats" where
  "get_user_analytics db start_date end_date current_user now1 now2 =
     (let end_date1 = or_default end_date (Iso now1 False);
          start_date1 = or_default start_date (Iso (now2 - 30 * microseconds_per_day) False)
      in case validate_date_range start_date1 end_date1 of
           Inl e \<Rightarrow> Inl e
         | Inr (False, error) \<Rightarrow> Inl (HTTPException 400 error)
         | Inr (True, msg) \<Rightarrow>
             (case (start_date1, end_date1) of
                (Iso start a, Iso end' b) \<Rightarrow>
                  (let ps = user_projects_in_range db current_user start end';
                       ds = user_deployments_in_range db current_user start end';
                       total_deployments = length ds;
                       status_counts = count_statuses ds;
                       successful_deployments = get_or status_counts ''success'' 0
                   in case success_rate successful_deployments total_deployments of
                        Inl e \<Rightarrow> Inl e
                      | Inr rate \<Rightarrow>
                          (case avg_deployment_time (deployment_times ds) of
                             Inl e \<Rightarrow> Inl e
                           | Inr avg \<Rightarrow>
                               if a \<noteq> b then Inl TypeError
                               else
                                 Inr \<lparr>us_days = days (end' - start),
                                      us_total_projects = length ps,
                                      us_total_deployments = total_deployments,
                                      us_success_rate = round2 rate,
                                      us_avg_deployment_time_seconds = round2 avg,
                                      us_deployment_status = status_counts\<rparr>))
              | other \<Rightarrow> Inl ValueError))"

record ProjectStats =
  ps_total_deployments :: nat
  ps_success_rate :: rat
  ps_avg_deployment_time_seconds :: rat
  ps_failed_deployments :: nat
  ps_deployment_status :: "string \<rightharpoonup> nat"

definition project_deployments_in_range ::
  "Session \<Rightarrow> nat \<Rightarrow> datetime \<Rightarrow> datetime \<Rightarrow> Deployment list" where
  "project_deployments_in_range db pid start end' =
     filter (\<lambda>d. project_id d = pid \<and> between (started_at d) start end') (deployments db)"

text \<open>
  The default start date of the project statistics is \<^verbatim>\<open>project.created_at.isoformat()\<close>.
  The column is \<^verbatim>\<open>DateTime(timezone=True)\<close>: whether its values come back offset-aware
  depends on the database (PostgreSQL, the configured one, gives aware values, SQLite naive
  ones), so it is the parameter \<open>aware_columns\<close>. \<open>now\<close> is \<^verbatim>\<open>datetime.utcnow()\<close>.
\<close>

definition get_project_analytics ::
  "bool \<Rightarrow> Session \<Rightarrow> nat \<Rightarrow> date_arg option \<Rightarrow> date_arg option \<Rightarrow> User \<Rightarrow> datetime
     \<Rightarrow> exn + ProjectStats" where
  "get_project_analytics aware_columns db pid start_date end_date current_user now =
     (case owned_project db pid current_user of
        None \<Rightarrow> Inl (HTTPException 404 ''Project not found'')
      | Some project \<Rightarrow>
          (let end_date1 = or_default end_date (Iso now False);
               start_date1 = or_default start_date (Iso (p_created_at project) aware_columns)
           in case validate_date_range start_date1 end_date1 of
                Inl e \<Rightarrow> Inl e
              | Inr (False, error) \<Rightarrow> Inl (HTTPException 400 error)
              | Inr (True, msg) \<Rightarrow>
                  (case (start_date1, end_date1) of
                     (Iso start a, Iso end' b) \<Rightarrow>
                       (let ds = project_deployments_in_range db pid start end';
                            total_deployments = length ds;
                            status_counts = count_statuses ds;
                            successful_deployments = get_or status_counts ''success'' 0
                        in case success_rate successful_deployments total_deployments of
                             Inl e \<Rightarrow> Inl e
                           | Inr rate \<Rightarrow>
                               (case avg_deployment_time (deployment_times ds) of
                                  Inl e \<Rightarrow> Inl e
                                | Inr avg \<Rightarrow>
                                    Inr \<lparr>ps_total_deployments = total_deployments,
                                         ps_success_rate = round2 rate,
                                         ps_avg_deployment_time_seconds = round2 avg,
                                         ps_failed_deployments = get_or status_counts ''failed'' 0,
                                         ps_deployment_status = status_counts\<rparr>))
                   | other \<Rightarrow> Inl ValueError)))"

subsection \<open>The admin overview\<close>

text \<open>\<^verbatim>\<open>require_admin\<close> (dependencies.py)\<close>

definition require_admin :: "User \<Rightarrow> exn + User" where
  "require_admin current_user =
     (if \<not> is_admin current_user then Inl (HTTPException 403 ''Admin privileges required'')
      else Inr current_user)"

text \<open>
  \<^verbatim>\<open>((new_users_this_month - new_users_last_month) / new_users_last_month * 100)
  if new_users_last_month > 0 else 100\<close>
\<close>

definition user_growth :: "nat \<Rightarrow> nat \<Rightarrow> exn + rat" where
  "user_growth new_users_this_month new_users_last_month =
     (if new_users_last_month > 0
      then (case truediv (of_int (int new_users_this_month - int new_users_last_month))
                         (of_nat new_users_last_month) of
              Inl e \<Rightarrow> Inl e
            | Inr q \<Rightarrow> Inr (q * 100))
      else Inr 100)"

text \<open>
  The overview and growth sections of \<^verbatim>\<open>get_admin_overview\<close>. \<open>month_start\<close> stands for
  \<^verbatim>\<open>.replace(day=1, hour=0, minute=0, second=0, microsecond=0)\<close> of the datetime library;
  the start of last month is the month start of the day before the start of this month.
\<close>

record AdminOverview =
  total_users :: nat
  active_users_last_30_days :: nat
  total_projects :: nat
  total_deployments :: nat
  deployment_success_rate :: rat
  new_users_this_month :: nat
  new_users_last_month :: nat
  user_growth_percentage :: rat

definition get_admin_overview ::
  "(datetime \<Rightarrow> datetime) \<Rightarrow> Session \<Rightarrow> User \<Rightarrow> datetime \<Rightarrow> exn + AdminOverview" where
  "get_admin_overview month_start db current_user now =
     (case require_admin current_user of
        Inl e \<Rightarrow> Inl e
      | Inr admin \<Rightarrow>
          (let thirty_days_ago = now - 30 * microseconds_per_day;
               active_users = length (filter (\<lambda>u. u_created_at u \<ge> thirty_days_ago) (users db));
               successful_deployments =
                 length (filter (\<lambda>d. status d = SUCCESS) (deployments db));
               current_month_start = month_start now;
               last_month_start = month_start (current_month_start - microseconds_per_day);
               this_month = length (filter (\<lambda>u. u_created_at u \<ge> current_month_start) (users db));
               last_month = length (filter (\<lambda>u. u_created_at u \<ge> last_month_start
                                                 \<and> u_created_at u < current_month_start) (users db))
           in case success_rate successful_deployments (length (deployments db)) of
                Inl e \<Rightarrow> Inl e
              | Inr rate \<Rightarrow>
                  (case user_growth this_month last_month of
                     Inl e \<Rightarrow> Inl e
                   | Inr growth \<Rightarrow>
                       Inr \<lparr>total_users = length (users db),
                            active_users_last_30_days = active_users,
                            total_projects = length (projects db),
                            total_deployments = length (deployments db),
                            deployment_success_rate = round2 rate,
                            new_users_this_month = this_month,
                            new_users_last_month = last_month,
                            user_growth_percentage = round2 growth\<rparr>)))"

section \<open>Rate limiter (middleware/rate_limiter.py)\<close>

text \<open>
  \<^verbatim>\<open>time.time()\<close> is a number of seconds, kept exact; \<^verbatim>\<open>int(x)\<close> drops the fraction,
  towards zero. \<^verbatim>\<open>min\<close> of an empty list raises \<^verbatim>\<open>ValueError\<close>.
\<close>

record RateLimiter =
  requests_per_minute :: nat
  requests :: "string \<rightharpoonup> rat list"

definition py_int :: "rat \<Rightarrow> int" where
  "py_int x = (if x \<ge> 0 then \<lfloor>x\<rfloor> else \<lceil>x\<rceil>)"

definition is_rate_limited ::
  "RateLimiter \<Rightarrow> string \<Rightarrow> rat \<Rightarrow> RateLimiter \<times> (exn + bool \<times> int)" where
  "is_rate_limited self client_ip now =
     (let kept = (case requests self client_ip of
                    Some reqs \<Rightarrow> filter (\<lambda>req_time. now - req_time < 60) reqs
                  | None \<Rightarrow> []);
          self1 = self\<lparr>requests := (requests self)(client_ip \<mapsto> kept)\<rparr>
      in if length kept \<ge> requests_per_minute self
         then (case kept of
                 [] \<Rightarrow> (self1, Inl ValueError)
               | t # ts \<Rightarrow>
                   (let oldest_request = fold min ts t
                    in (self1, Inr (True, py_int (60 - (now - oldest_request))))))
         else (self1\<lparr>requests := (requests self1)(client_ip \<mapsto> kept @ [now])\<rparr>,
               Inr (False, 0)))"

text \<open>
  The middleware. A request carries its path and the client's host, if known; the response
  keeps the status and the headers the middleware sets. \<open>call_next\<close> is the rest of the
  application.
\<close>

record Request =
  path :: string
  client_host :: "string option"

record Response =
  response_status :: nat
  retry_after :: "int option"
  x_ratelimit_limit :: "nat option"
  x_ratelimit_remaining :: "int option"

definition startswith :: "string \<Rightarrow> string \<Rightarrow> bool" where
  "startswith s p = (take (length p) s = p)"

definition rate_limit_middleware ::
  "RateLimiter \<Rightarrow> Request \<Rightarrow> (Request \<Rightarrow> Response) \<Rightarrow> rat \<Rightarrow> RateLimiter \<times> (exn + Response)" where
  "rate_limit_middleware rate_limiter request call_next now =
     (if startswith (path request) ''/health'' then (rate_limiter, Inr (call_next request))
      else
        let client_ip = (case client_host request of Some h \<Rightarrow> h | None \<Rightarrow> ''unknown'')
        in case is_rate_limited rate_limiter client_ip now of
             (rl, Inl e) \<Rightarrow> (rl, Inl e)
           | (rl, Inr (is_limited, retry)) \<Rightarrow>
               if is_limited
               then (rl, Inr \<lparr>response_status = 429, retry_after = Some retry,
                              x_ratelimit_limit = None, x_ratelimit_remaining = None\<rparr>)
               else (rl, Inr ((call_next request)
                       \<lparr>x_ratelimit_limit := Some (requests_per_minute rl),
                        x_ratelimit_remaining :=
                          Some (int (requests_per_minute rl)
                                  - int (length (get_or (requests rl) client_ip [])))\<rparr>)))"

text \<open>The global instance, \<^verbatim>\<open>RateLimiter(requests_per_minute=60)\<close>.\<close>

definition rate_limiter0 :: RateLimiter where
  "rate_limiter0 = \<lparr>requests_per_minute = 60, requests = Map.empty\<rparr>"

text \<open>
  A client's requests one after the other: the middleware's responses, in order, and the
  limiter it leaves. A request is a time and the request itself.
\<close>

fun serve :: "RateLimiter \<Rightarrow> (Request \<Rightarrow> Response) \<Rightarrow> (rat \<times> Request) list
                \<Rightarrow> RateLimiter \<times> (exn + Response) list" where
  "serve rl call_next [] = (rl, [])"
| "serve rl call_next ((now, request) # rest) =
     (case rate_limit_middleware rl request call_next now of
        (rl1, out) \<Rightarrow> (case serve rl1 call_next rest of (rl2, outs) \<Rightarrow> (rl2, out # outs)))"

section \<open>Logout (routers/auth.py)\<close>

text \<open>
  \<^verbatim>\<open>logout\<close> depends on \<^verbatim>\<open>HTTPBearer()\<close> alone: \<open>credentials\<close> is the bearer string of the
  Authorization header, \<open>None\<close> when the header is missing, which the dependency answers
  with 403. The handler then deletes the rows whose token is the one of the request body.
\<close>

definition logout :: "Session \<Rightarrow> string \<Rightarrow> string option \<Rightarrow> Session \<times> (exn + string)" where
  "logout db refresh_token credentials =
     (case credentials of
        None \<Rightarrow> (db, Inl (HTTPException 403 ''Not authenticated''))
      | Some bearer \<Rightarrow>
          (db\<lparr>refresh_tokens := filter (\<lambda>t. token t \<noteq> refresh_token) (refresh_tokens db)\<rparr>,
           Inr ''Successfully logged out''))"

section \<open>Example data and notions for the statements\<close>

definition cancellation_line :: string where
  "cancellation_line = ''\<newline>'' @ cross_mark @ '' Deployment cancelled by user\<newline>''"

definition alice :: User where
  "alice = \<lparr>u_id = 1, email = ''alice@example.com'', hashed_password = ''h1'',
            u_created_at = 0, is_active = True, is_admin = False\<rparr>"

definition bob :: User where
  "bob = \<lparr>u_id = 2, email = ''bob@example.com'', hashed_password = ''h2'',
          u_created_at = 0, is_active = True, is_admin = False\<rparr>"

definition project1 :: Project where
  "project1 = \<lparr>p_id = 1, name = ''site'', github_url = ''https://github.com/u/r'',
               p_status = ACTIVE, user_id = 1, p_created_at = 10\<rparr>"

definition db0 :: Session where
  "db0 = \<lparr>users = [alice, bob], projects = [project1], deployments = [],
          refresh_tokens = [\<lparr>t_id = 1, token = ''rt-alice'', t_user_id = 1,
                             expires_at = 1000, t_created_at = 0\<rparr>]\<rparr>"

definition pending_row :: Deployment where
  "pending_row = \<lparr>d_id = 1, project_id = 1, status = PENDING,
                  logs = ''Deployment queued...\<newline>'', started_at = 100,
                  completed_at = None\<rparr>"

definition db_pending :: Session where
  "db_pending = db0\<lparr>deployments := [pending_row]\<rparr>"

definition db_done :: Session where
  "db_done = db0\<lparr>deployments := [pending_row\<lparr>status := SUCCESS, completed_at := Some 200\<rparr>]\<rparr>"

definition server0 :: Server where
  "server0 = \<lparr>session = db0, tasks = Map.empty\<rparr>"

text \<open>An administrator, and a calendar of thirty-day months for the overview.\<close>

definition carol :: User where
  "carol = \<lparr>u_id = 3, email = ''carol@example.com'', hashed_password = ''h3'',
            u_created_at = 0, is_active = True, is_admin = True\<rparr>"

definition month30 :: "datetime \<Rightarrow> datetime" where
  "month30 t = t - t mod (30 * microseconds_per_day)"

definition db_quiet :: Session where
  "db_quiet = \<lparr>users = [carol], projects = [], deployments = [], refresh_tokens = []\<rparr>"

definition db_growing :: Session where
  "db_growing = db_quiet\<lparr>users := [carol, alice\<lparr>u_created_at := 95 * microseconds_per_day\<rparr>]\<rparr>"

definition day100 :: datetime where
  "day100 = 100 * microseconds_per_day"

text \<open>A client's request to a rate-limited path, and the application's answer to it.\<close>

definition req1 :: Request where
  "req1 = \<lparr>path = ''/projects'', client_host = Some ''10.0.0.1''\<rparr>"

definition ok_response :: Response where
  "ok_response = \<lparr>response_status = 200, retry_after = None, x_ratelimit_limit = None,
                   x_ratelimit_remaining = None\<rparr>"

text \<open>The status and the Retry-After value of a response; an escaped exception is a 500.\<close>

definition outcome :: "exn + Response \<Rightarrow> nat \<times> int option" where
  "outcome out =
     (case out of Inl e \<Rightarrow> (status_code e, None)
                | Inr r \<Rightarrow> (response_status r, retry_after r))"

text \<open>The overview of a system in which nobody registered this month or last month.\<close>

definition overview_quiet :: AdminOverview where
  "overview_quiet = \<lparr>total_users = 1, active_users_last_30_days = 0, total_projects = 0,
                      total_deployments = 0, deployment_success_rate = 0,
                      new_users_this_month = 0, new_users_last_month = 0,
                      user_growth_percentage = 100\<rparr>"

text \<open>
  Of a request: the client the middleware counts it for, and whether its path is
  rate-limited. Of a limiter: the request times it holds for a client.
\<close>

definition client_of :: "Request \<Rightarrow> string" where
  "client_of request = (case client_host request of Some h \<Rightarrow> h | None \<Rightarrow> ''unknown'')"

definition limited_path :: "Request \<Rightarrow> bool" where
  "limited_path request = (\<not> startswith (path request) ''/health'')"

definition history :: "RateLimiter \<Rightarrow> string \<Rightarrow> rat list" where
  "history rl ip = get_or (requests rl) ip []"

text \<open>
  Notions for the lifecycle: a row whose completion time is set exactly when its status is
  terminal; the kinds of event; a server in which every row is such a row and every
  terminal row's simulator task has returned; the simulator's first stage.
\<close>

definition completion_matches_status :: "Deployment \<Rightarrow> bool" where
  "completion_matches_status d = ((completed_at d \<noteq> None) = is_terminal (status d))"

definition is_cancel :: "event \<Rightarrow> bool" where
  "is_cancel e = (case e of Cancel i u now \<Rightarrow> True | other \<Rightarrow> False)"

definition settled :: "Server \<Rightarrow> bool" where
  "settled s = list_all (\<lambda>d. completion_matches_status d \<and>
                               (is_terminal (status d) \<longrightarrow> tasks s (d_id d) = Some Returned))
                        (deployments (session s))"

definition is_advance :: "event \<Rightarrow> bool" where
  "is_advance e = (case e of Advance i r now \<Rightarrow> True | other \<Rightarrow> False)"

definition first_stage :: "Server \<Rightarrow> event \<Rightarrow> bool" where
  "first_stage s e =
     (case e of Advance i r now \<Rightarrow> tasks s i = Some Initial_delay | other \<Rightarrow> False)"

section \<open>Queries and row updates\<close>

lemma first_map: "first (map f xs) = map_option f (first xs)"
  by (cases xs) simp_all

lemma filter_map_invariant:
  assumes "\<And>x. P (f x) = P x"
  shows "filter P (map f xs) = map f (filter P xs)"
  using assms by (induction xs) simp_all

lemma first_filter_Some: "first (filter P xs) = Some x \<Longrightarrow> P x \<and> x \<in> set xs"
proof (induction xs)
  case Nil
  then show ?case by simp
next
  case (Cons a xs)
  then show ?case by (cases "P a") auto
qed

lemma owned_deployment_id:
  assumes "owned_deployment db i u = Some d"
  shows "d_id d = i"
proof -
  let ?P = "\<lambda>d. d_id d = i \<and>
      list_ex (\<lambda>p. p_id p = project_id d \<and> user_id p = u_id u) (projects db)"
  have "first (filter ?P (deployments db)) = Some d"
    using assms by (simp add: owned_deployment_def)
  then have "?P d" by (rule first_filter_Some[THEN conjunct1])
  then show ?thesis by simp
qed

lemma owned_deployment_after_update:
  assumes own: "owned_deployment db i u = Some d"
    and keep: "\<And>x. d_id (f x) = d_id x \<and> project_id (f x) = project_id x"
  shows "owned_deployment (update_deployment i f db) i u = Some (f d)"
proof -
  let ?P = "\<lambda>d. d_id d = i \<and>
      list_ex (\<lambda>p. p_id p = project_id d \<and> user_id p = u_id u) (projects db)"
  let ?g = "\<lambda>d. if d_id d = i then f d else d"
  have inv: "\<And>x. ?P (?g x) = ?P x" using keep by simp
  have "filter ?P (map ?g (deployments db)) = map ?g (filter ?P (deployments db))"
    using inv by (rule filter_map_invariant)
  then have "owned_deployment (update_deployment i f db) i u
      = map_option ?g (first (filter ?P (deployments db)))"
    by (simp add: owned_deployment_def update_deployment_def first_map)
  also have "\<dots> = Some (?g d)" using own by (simp add: owned_deployment_def)
  finally show ?thesis using owned_deployment_id[OF own] by simp
qed

section \<open>Cancellation\<close>

text \<open>
  C2. For a deployment the requester owns: if its status is SUCCESS, FAILED or CANCELLED,
  the cancel handler raises the 400 exception and leaves the database as it was; if its
  status is PENDING, BUILDING or DEPLOYING, the handler answers with its success message,
  and the stored row is the old one with status CANCELLED, a completion time (the current
  time) and the cancellation line appended to the log.
\<close>

theorem cancel_deployment_contract:
  assumes "owned_deployment db i u = Some d"
  shows "(status d \<in> {SUCCESS, FAILED, CANCELLED} \<longrightarrow>
            fst (cancel_deployment db i u now) = db \<and>
            (case snd (cancel_deployment db i u now) of
               Inl e \<Rightarrow> status_code e = 400 | Inr m \<Rightarrow> False)) \<and>
         (status d \<in> {PENDING, BUILDING, DEPLOYING} \<longrightarrow>
            snd (cancel_deployment db i u now) = Inr ''Deployment cancelled successfully'' \<and>
            owned_deployment (fst (cancel_deployment db i u now)) i u
              = Some (d\<lparr>status := CANCELLED, completed_at := Some now,
                        logs := logs d @ cancellation_line\<rparr>))"
proof (intro conjI impI)
  assume t: "status d \<in> {SUCCESS, FAILED, CANCELLED}"
  then show "fst (cancel_deployment db i u now) = db"
    using assms by (auto simp: cancel_deployment_def)
  from t show "case snd (cancel_deployment db i u now) of
               Inl e \<Rightarrow> status_code e = 400 | Inr m \<Rightarrow> False"
    using assms by (auto simp: cancel_deployment_def)
next
  assume r: "status d \<in> {PENDING, BUILDING, DEPLOYING}"
  then show "snd (cancel_deployment db i u now) = Inr ''Deployment cancelled successfully''"
    using assms by (auto simp: cancel_deployment_def)
  have id: "d_id d = i" using assms by (rule owned_deployment_id)
  let ?f = "\<lambda>x. x\<lparr>status := CANCELLED, completed_at := Some now,
                         logs := logs d @ ''\<newline>'' @ cross_mark
                                   @ '' Deployment cancelled by user\<newline>''\<rparr>"
  have "fst (cancel_deployment db i u now) = update_deployment i ?f db"
    using assms r id by (auto simp: cancel_deployment_def)
  moreover have "owned_deployment (update_deployment i ?f db) i u = Some (?f d)"
    using assms by (rule owned_deployment_after_update) simp
  ultimately show "owned_deployment (fst (cancel_deployment db i u now)) i u
              = Some (d\<lparr>status := CANCELLED, completed_at := Some now,
                        logs := logs d @ cancellation_line\<rparr>)"
    by (simp add: cancellation_line_def)
qed

theorem cancel_deployment_contract_witness:
  "owned_deployment db_pending 1 alice = Some pending_row \<and>
   status pending_row \<in> {PENDING, BUILDING, DEPLOYING} \<and>
   snd (cancel_deployment db_pending 1 alice 150) = Inr ''Deployment cancelled successfully'' \<and>
   owned_deployment (fst (cancel_deployment db_pending 1 alice 150)) 1 alice
     = Some (pending_row\<lparr>status := CANCELLED, completed_at := Some 150,
                          logs := logs pending_row @ cancellation_line\<rparr>) \<and>
   owned_deployment db_done 1 alice
     = Some (pending_row\<lparr>status := SUCCESS, completed_at := Some 200\<rparr>) \<and>
   status (pending_row\<lparr>status := SUCCESS, completed_at := Some 200\<rparr>)
     \<in> {SUCCESS, FAILED, CANCELLED} \<and>
   fst (cancel_deployment db_done 1 alice 300) = db_done \<and>
   (case snd (cancel_deployment db_done 1 alice 300) of
      Inl e \<Rightarrow> status_code e = 400 | Inr m \<Rightarrow> False)"
proof -
  have p: "owned_deployment db_pending 1 alice = Some pending_row"
    by (simp add: owned_deployment_def db_pending_def db0_def pending_row_def project1_def
        alice_def)
  have q: "owned_deployment db_done 1 alice
     = Some (pending_row\<lparr>status := SUCCESS, completed_at := Some 200\<rparr>)"
    by (simp add: owned_deployment_def db_done_def db0_def pending_row_def project1_def
        alice_def)
  have sp: "status pending_row \<in> {PENDING, BUILDING, DEPLOYING}"
    by (simp add: pending_row_def)
  have sq: "status (pending_row\<lparr>status := SUCCESS, completed_at := Some 200\<rparr>)
     \<in> {SUCCESS, FAILED, CANCELLED}"
    by simp
  show ?thesis
    using p q sp sq cancel_deployment_contract[OF p, of 150]
      cancel_deployment_contract[OF q, of 300]
    by simp
qed

section \<open>The simulator against a cancellation\<close>

lemmas lifecycle_defs = server0_def db0_def alice_def bob_def project1_def run_def Let_def
  trigger_deployment_def owned_project_def next_id_def cancel_deployment_def
  owned_deployment_def update_deployment_def deployment_row_def

text \<open>
  C1. A terminal status is not final in the code. Alice triggers a deployment of her
  project and cancels it before the simulator's first stage: the status is CANCELLED. The
  simulator's first stage then writes BUILDING without looking at the stored status, and
  its remaining stages take the cancelled deployment to SUCCESS.
\<close>

theorem simulator_overwrites_cancelled:
  "status_of (run [Trigger 1 alice 100, Cancel 1 alice 150] server0) 1 = Some CANCELLED \<and>
   status_of (run [Trigger 1 alice 100, Cancel 1 alice 150, Advance 1 (1 / 2) 2100] server0) 1
     = Some BUILDING \<and>
   status_of (run [Trigger 1 alice 100, Cancel 1 alice 150, Advance 1 (1 / 2) 2100,
                   Advance 1 (1 / 2) 5100, Advance 1 (1 / 2) 5100, Advance 1 (1 / 2) 7100]
                  server0) 1
     = Some SUCCESS"
  by (simp add: lifecycle_defs status_of_def)

text \<open>
  C3. In the same run, after the simulator's first stage the deployment is BUILDING while
  its completion time is still the one the cancellation stamped: a non-terminal status with
  a completion time.
\<close>

theorem completion_time_on_building:
  "status_of (run [Trigger 1 alice 100, Cancel 1 alice 150, Advance 1 (1 / 2) 2100] server0) 1
     = Some BUILDING \<and>
   completed_of (run [Trigger 1 alice 100, Cancel 1 alice 150, Advance 1 (1 / 2) 2100] server0) 1
     = Some (Some 150)"
  by (simp add: lifecycle_defs status_of_def completed_of_def)

text \<open>
  C4. The log is not append-only in the code. After the trigger the log is the queued
  line; the simulator's first stage assigns the log instead of appending to it, and the
  queued line is gone.
\<close>

theorem first_stage_replaces_log:
  "logs_of (run [Trigger 1 alice 100] server0) 1 = Some ''Deployment queued...\<newline>'' \<and>
   logs_of (run [Trigger 1 alice 100, Advance 1 (1 / 2) 2100] server0) 1
     = Some ''Starting build process...\<newline>''"
  by (simp add: lifecycle_defs logs_of_def)

section \<open>Where the lifecycle properties do hold\<close>

text \<open>
  Primary keys stay unique: a new row gets a key larger than every key in the table, and
  an update keeps the key.
\<close>

lemma fold_max_ge: "m \<le> fold max ids (m::nat)"
  by (induction ids arbitrary: m) (auto intro: order_trans[OF max.cobounded2])

lemma fold_max_bound: "x \<in> set ids \<Longrightarrow> x \<le> fold max ids (m::nat)"
proof (induction ids arbitrary: m)
  case Nil
  then show ?case by simp
next
  case (Cons a ids)
  show ?case
  proof (cases "x = a")
    case True
    have "a \<le> max a m" by simp
    also have "\<dots> \<le> fold max ids (max a m)" by (rule fold_max_ge)
    finally show ?thesis using True by simp
  next
    case False
    then show ?thesis using Cons by simp
  qed
qed

lemma next_id_fresh: "x \<in> set ids \<Longrightarrow> x \<noteq> next_id ids"
  using fold_max_bound[of x ids 0] by (auto simp: next_id_def)

lemma row_id_fresh: "d \<in> set ds \<Longrightarrow> d_id d = next_id (map d_id ds) \<Longrightarrow> False"
  using next_id_fresh[of "d_id d" "map d_id ds"] by simp

lemma map_d_id_update:
  "(\<And>x. d_id (f x) = d_id x) \<Longrightarrow>
   map d_id (deployments (update_deployment j f db)) = map d_id (deployments db)"
  by (simp add: update_deployment_def comp_def cong: map_cong)

lemma distinct_ids_step:
  assumes "distinct (map d_id (deployments (session s)))"
  shows "distinct (map d_id (deployments (session (apply_event e s))))"
proof (cases e)
  case (Trigger pid u now)
  then show ?thesis using assms
    by (auto simp: trigger_deployment_def Let_def split: option.splits dest: row_id_fresh)
next
  case (Cancel j u now)
  then show ?thesis using assms
    by (auto simp: cancel_deployment_def map_d_id_update split: option.splits)
next
  case (Advance j r now)
  show ?thesis
  proof (cases "tasks s j")
    case None
    then show ?thesis using Advance assms by simp
  next
    case (Some pc)
    then show ?thesis using Advance assms
      by (cases pc) (auto simp: map_d_id_update split: option.splits)
  qed
qed

text \<open>
  The row of a primary key, after an append and after an update; with unique keys it is
  the row the ownership query finds.
\<close>

lemma first_append_Some: "first xs = Some x \<Longrightarrow> first (xs @ ys) = Some x"
  by (cases xs) simp_all

lemma first_filter_None_D: "first (filter P xs) = None \<Longrightarrow> x \<in> set xs \<Longrightarrow> \<not> P x"
  by (induction xs) (auto split: if_splits)

lemma deployment_row_None:
  "deployment_row db i = None \<Longrightarrow> d \<in> set (deployments db) \<Longrightarrow> d_id d \<noteq> i"
  unfolding deployment_row_def by (drule first_filter_None_D) auto

lemma deployment_row_Some:
  "deployment_row db i = Some d \<Longrightarrow> d \<in> set (deployments db) \<and> d_id d = i"
  unfolding deployment_row_def by (drule first_filter_Some) simp

lemma deployment_row_update:
  assumes "deployment_row db i = Some d" "\<And>x. d_id (f x) = d_id x"
  shows "deployment_row (update_deployment j f db) i = Some (if i = j then f d else d)"
proof -
  let ?g = "\<lambda>d. if d_id d = j then f d else d"
  have "filter (\<lambda>d. d_id d = i) (map ?g (deployments db))
          = map ?g (filter (\<lambda>d. d_id d = i) (deployments db))"
    by (rule filter_map_invariant) (simp add: assms(2))
  then have "deployment_row (update_deployment j f db) i = map_option ?g (deployment_row db i)"
    by (simp add: deployment_row_def update_deployment_def first_map)
  then show ?thesis using assms(1) deployment_row_Some[OF assms(1)] by auto
qed

lemma owned_is_row:
  assumes "distinct (map d_id (deployments db))" "owned_deployment db i u = Some d"
    "deployment_row db i = Some d'"
  shows "d = d'"
proof -
  have "d \<in> set (deployments db)" "d_id d = i"
    using assms(2) first_filter_Some[of _ "deployments db" d] owned_deployment_id[OF assms(2)]
    by (auto simp: owned_deployment_def)
  moreover have "d' \<in> set (deployments db)" "d_id d' = i"
    using deployment_row_Some[OF assms(3)] by auto
  moreover have "inj_on d_id (set (deployments db))"
    using assms(1) by (simp add: distinct_map)
  ultimately show ?thesis by (auto dest: inj_onD)
qed

text \<open>
  The request handlers respect a terminal status: neither a trigger nor a cancellation
  changes the status of a deployment that is SUCCESS, FAILED or CANCELLED. Only a
  simulator step can.
\<close>

lemma handlers_keep_terminal_status:
  assumes dist: "distinct (map d_id (deployments (session s)))"
    and row: "status_of s i = Some st" and final: "is_terminal st"
    and handler: "\<not> is_advance e"
  shows "status_of (apply_event e s) i = Some st"
proof (cases e)
  case (Trigger pid u now)
  obtain d where d: "deployment_row (session s) i = Some d" "status d = st"
    using row by (auto simp: status_of_def)
  show ?thesis
  proof (cases "owned_project (session s) pid u")
    case None
    then show ?thesis using Trigger row by (simp add: trigger_deployment_def status_of_def)
  next
    case (Some p)
    then show ?thesis using Trigger d
      by (simp add: trigger_deployment_def status_of_def deployment_row_def Let_def
          first_append_Some)
  qed
next
  case (Cancel j u now)
  obtain d where d: "deployment_row (session s) i = Some d" "status d = st"
    using row by (auto simp: status_of_def)
  show ?thesis
  proof (cases "owned_deployment (session s) j u")
    case None
    then show ?thesis using Cancel row by (simp add: cancel_deployment_def status_of_def)
  next
    case (Some c)
    have cj: "d_id c = j" using Some by (rule owned_deployment_id)
    show ?thesis
    proof (cases "status c \<in> set [SUCCESS, FAILED, CANCELLED]")
      case True
      then show ?thesis using Cancel Some row by (simp add: cancel_deployment_def status_of_def)
    next
      case False
      have "i \<noteq> j"
      proof
        assume "i = j"
        then have "c = d" using owned_is_row[OF dist] Some d(1) by simp
        then show False using False final d(2) by (simp add: is_terminal_def)
      qed
      then show ?thesis using Cancel Some False cj d
        by (simp add: cancel_deployment_def status_of_def deployment_row_update)
    qed
  qed
next
  case (Advance j r now)
  then show ?thesis using handler by (simp add: is_advance_def)
qed

text \<open>
  Without cancellations the completion time follows the status: from a settled server, a
  run of triggers and simulator steps leads to a settled server.
\<close>

lemma settled_trigger: "settled s \<Longrightarrow> settled (apply_event (Trigger pid u now) s)"
  by (auto simp: settled_def trigger_deployment_def list_all_iff completion_matches_status_def
      is_terminal_def Let_def split: option.splits dest: row_id_fresh)

lemma settled_advance: "settled s \<Longrightarrow> settled (apply_event (Advance i r now) s)"
proof (cases "tasks s i")
  case None
  then show "settled s \<Longrightarrow> ?thesis" by simp
next
  case (Some pc)
  assume st: "settled s"
  show ?thesis
  proof (cases "deployment_row (session s) i")
    case None
    then have "\<forall>d \<in> set (deployments (session s)). d_id d \<noteq> i"
      by (auto dest: deployment_row_None)
    then show ?thesis using st Some None
      by (cases pc) (auto simp: settled_def list_all_iff)
  next
    case (Some d)
    then show ?thesis using st \<open>tasks s i = Some pc\<close>
      by (cases pc)
        (auto simp: settled_def list_all_iff update_deployment_def completion_matches_status_def
          is_terminal_def)
  qed
qed

lemma settled_run:
  "settled s \<Longrightarrow> list_all (\<lambda>e. \<not> is_cancel e) events \<Longrightarrow> settled (run events s)"
proof (induction events arbitrary: s)
  case Nil
  then show ?case by (simp add: run_def)
next
  case (Cons e events)
  have "settled (apply_event e s)"
  proof (cases e)
    case (Trigger pid u now)
    then show ?thesis using Cons.prems(1) settled_trigger by simp
  next
    case (Cancel i u now)
    then show ?thesis using Cons.prems(2) by (simp add: is_cancel_def)
  next
    case (Advance i r now)
    then show ?thesis using Cons.prems(1) settled_advance by simp
  qed
  then have "settled (run events (apply_event e s))"
    using Cons.IH Cons.prems(2) by simp
  then show ?case by (simp add: run_def)
qed

text \<open>
  Every event but a simulator's first stage extends the log of every deployment.
\<close>

lemma later_events_append_to_log:
  assumes dist: "distinct (map d_id (deployments (session s)))"
    and row: "logs_of s i = Some l" and later: "\<not> first_stage s e"
  shows "\<exists>more. logs_of (apply_event e s) i = Some (l @ more)"
proof (cases e)
  case (Trigger pid u now)
  obtain d where d: "deployment_row (session s) i = Some d" "logs d = l"
    using row by (auto simp: logs_of_def)
  show ?thesis
  proof (cases "owned_project (session s) pid u")
    case None
    then have "logs_of (apply_event e s) i = Some (l @ [])"
      using Trigger row by (simp add: trigger_deployment_def)
    then show ?thesis by blast
  next
    case (Some p)
    then have "logs_of (apply_event e s) i = Some (l @ [])"
      using Trigger d
      by (simp add: trigger_deployment_def logs_of_def deployment_row_def Let_def
          first_append_Some)
    then show ?thesis by blast
  qed
next
  case (Cancel j u now)
  obtain d where d: "deployment_row (session s) i = Some d" "logs d = l"
    using row by (auto simp: logs_of_def)
  show ?thesis
  proof (cases "owned_deployment (session s) j u")
    case None
    then have "logs_of (apply_event e s) i = Some (l @ [])"
      using Cancel row by (simp add: cancel_deployment_def)
    then show ?thesis by blast
  next
    case (Some c)
    have cj: "d_id c = j" using Some by (rule owned_deployment_id)
    have same: "i = j \<Longrightarrow> c = d" using owned_is_row[OF dist] Some d(1) by simp
    show ?thesis using Cancel Some cj d same row
      by (auto simp: cancel_deployment_def logs_of_def deployment_row_update
          intro: exI[of _ "[]"])
  qed
next
  case (Advance j r now)
  obtain d where d: "deployment_row (session s) i = Some d" "logs d = l"
    using row by (auto simp: logs_of_def)
  show ?thesis
  proof (cases "tasks s j")
    case None
    then have "logs_of (apply_event e s) i = Some (l @ [])"
      using Advance row by simp
    then show ?thesis by blast
  next
    case (Some pc)
    have pc: "pc \<noteq> Initial_delay" using later Advance Some by (simp add: first_stage_def)
    show ?thesis
    proof (cases "deployment_row (session s) j")
      case None
      then have "logs_of (apply_event e s) i = Some (l @ [])"
        using Advance Some row pc by (cases pc) (simp_all add: logs_of_def)
      then show ?thesis by blast
    next
      case (Some dj)
      then show ?thesis using Advance \<open>tasks s j = Some pc\<close> d pc
        by (cases pc) (auto simp: logs_of_def deployment_row_update intro: exI[of _ "[]"])
    qed
  qed
qed

section \<open>Ownership scoping\<close>

lemma first_filter_None: "(\<And>x. x \<in> set xs \<Longrightarrow> \<not> P x) \<Longrightarrow> first (filter P xs) = None"
  by (induction xs) simp_all

lemma owned_project_other:
  assumes "distinct (map p_id (projects db))" "p \<in> set (projects db)" "user_id p \<noteq> u_id u"
  shows "owned_project db (p_id p) u = None"
proof -
  have "\<not> (p_id q = p_id p \<and> user_id q = u_id u)" if "q \<in> set (projects db)" for q
  proof
    assume h: "p_id q = p_id p \<and> user_id q = u_id u"
    with assms(1,2) that have "q = p" by (meson distinct_map inj_onD)
    with h assms(3) show False by simp
  qed
  then show ?thesis unfolding owned_project_def by (intro first_filter_None) blast
qed

lemma owned_deployment_other:
  assumes "distinct (map p_id (projects db))" "distinct (map d_id (deployments db))"
    "d \<in> set (deployments db)" "p \<in> set (projects db)" "p_id p = project_id d"
    "user_id p \<noteq> u_id u"
  shows "owned_deployment db (d_id d) u = None"
proof -
  have "\<not> (d_id e = d_id d \<and>
           list_ex (\<lambda>q. p_id q = project_id e \<and> user_id q = u_id u) (projects db))"
    if "e \<in> set (deployments db)" for e
  proof
    assume h: "d_id e = d_id d \<and>
           list_ex (\<lambda>q. p_id q = project_id e \<and> user_id q = u_id u) (projects db)"
    with assms(2,3) that have e: "e = d" by (meson distinct_map inj_onD)
    from h obtain q where q: "q \<in> set (projects db)" "p_id q = project_id e" "user_id q = u_id u"
      by (auto simp: list_ex_iff)
    with e assms(5) have "p_id q = p_id p" by simp
    with assms(1,4) q(1) have "q = p" by (meson distinct_map inj_onD)
    with q(3) assms(6) show False by simp
  qed
  then show ?thesis unfolding owned_deployment_def by (intro first_filter_None) blast
qed

text \<open>
  C5. In a database whose primary keys are unique, let \<open>p\<close> be a project whose owner is
  not the requesting user \<open>u\<close> (whether or not \<open>u\<close> is an administrator). Then retrieving,
  updating and deleting \<open>p\<close>, and retrieving, reading the log of and cancelling any
  deployment of \<open>p\<close>, all raise the 404 exception and leave the database as it was.
\<close>

theorem foreign_resources_not_found:
  assumes "distinct (map p_id (projects db))" "distinct (map d_id (deployments db))"
    and "p \<in> set (projects db)" "user_id p \<noteq> u_id u"
  shows "get_project db (p_id p) u = (db, Inl (HTTPException 404 ''Project not found'')) \<and>
         update_project db (p_id p) upd u = (db, Inl (HTTPException 404 ''Project not found'')) \<and>
         delete_project db (p_id p) u = (db, Inl (HTTPException 404 ''Project not found'')) \<and>
         (\<forall>d \<in> set (deployments db). project_id d = p_id p \<longrightarrow>
            get_deployment db (d_id d) u = (db, Inl (HTTPException 404 ''Deployment not found'')) \<and>
            get_deployment_logs db (d_id d) u
              = (db, Inl (HTTPException 404 ''Deployment not found'')) \<and>
            cancel_deployment db (d_id d) u now
              = (db, Inl (HTTPException 404 ''Deployment not found'')))"
proof -
  have pr: "owned_project db (p_id p) u = None"
    using assms(1,3,4) by (rule owned_project_other)
  have de: "owned_deployment db (d_id d) u = None"
    if "d \<in> set (deployments db)" "project_id d = p_id p" for d
    using assms(1,2) that(1) assms(3) that(2)[symmetric] assms(4) by (rule owned_deployment_other)
  show ?thesis
    using pr de
    by (simp add: get_project_def update_project_def delete_project_def get_deployment_def
        get_deployment_logs_def cancel_deployment_def)
qed

theorem foreign_resources_not_found_witness:
  "distinct (map p_id (projects db_pending)) \<and> distinct (map d_id (deployments db_pending)) \<and>
   project1 \<in> set (projects db_pending) \<and> user_id project1 \<noteq> u_id bob \<and>
   pending_row \<in> set (deployments db_pending) \<and> project_id pending_row = p_id project1 \<and>
   get_project db_pending 1 bob = (db_pending, Inl (HTTPException 404 ''Project not found'')) \<and>
   update_project db_pending 1 \<lparr>pc_name = ''mine'', pc_github_url = ''https://github.com/b/r''\<rparr> bob
     = (db_pending, Inl (HTTPException 404 ''Project not found'')) \<and>
   delete_project db_pending 1 bob = (db_pending, Inl (HTTPException 404 ''Project not found'')) \<and>
   get_deployment db_pending 1 bob
     = (db_pending, Inl (HTTPException 404 ''Deployment not found'')) \<and>
   get_deployment_logs db_pending 1 bob
     = (db_pending, Inl (HTTPException 404 ''Deployment not found'')) \<and>
   cancel_deployment db_pending 1 bob 150
     = (db_pending, Inl (HTTPException 404 ''Deployment not found''))"
proof -
  have a: "distinct (map p_id (projects db_pending))"
    and b: "distinct (map d_id (deployments db_pending))"
    and c: "project1 \<in> set (projects db_pending)"
    and e: "pending_row \<in> set (deployments db_pending)"
    by (simp_all add: db_pending_def db0_def)
  have d: "user_id project1 \<noteq> u_id bob" by (simp add: project1_def bob_def)
  have f: "project_id pending_row = p_id project1" by (simp add: pending_row_def project1_def)
  have i: "p_id project1 = 1" "d_id pending_row = 1" by (simp_all add: project1_def pending_row_def)
  from foreign_resources_not_found[OF a b c d,
      of "\<lparr>pc_name = ''mine'', pc_github_url = ''https://github.com/b/r''\<rparr>" 150]
  show ?thesis using a b c d e f i by auto
qed

section \<open>Success rate and growth\<close>

lemma success_rate_zero: "success_rate s 0 = Inr 0"
  by (simp add: success_rate_def)

lemma success_rate_no_zero_division: "success_rate s t \<noteq> Inl ZeroDivisionError"
  by (simp add: success_rate_def truediv_def)

lemma round2_0: "round2 0 = 0"
  by (simp add: round2_def round_half_even_def)

lemma round2_100: "round2 100 = 100"
  by (simp add: round2_def round_half_even_def)

lemma count_statuses_nil: "count_statuses [] = Map.empty"
  by (simp add: count_statuses_def)

text \<open>
  C6. A valid date range without deployments does not always get its success rate of 0.
  Alice has no deployment between the times 0 and 50. She asks for her statistics with a
  start date in the \<^verbatim>\<open>Z\<close> form, which the handler prepares for, and a naive end date, or
  no end date: the validator's comparison raises \<^verbatim>\<open>TypeError\<close>, which nothing catches.
  The project statistics fail the same way, and on a database with offset-aware columns
  they fail with no date parameter at all.
\<close>

theorem aware_start_naive_end_raises:
  "user_deployments_in_range db_pending alice 0 50 = [] \<and>
   get_user_analytics db_pending (Some (Iso 0 True)) (Some (Iso 50 False)) alice 500 500
     = Inl TypeError \<and>
   get_user_analytics db_pending (Some (Iso 0 True)) None alice 50 50 = Inl TypeError \<and>
   project_deployments_in_range db_pending 1 0 50 = [] \<and>
   get_project_analytics False db_pending 1 (Some (Iso 0 True)) None alice 50
     = Inl TypeError \<and>
   project_deployments_in_range db_pending 1 10 50 = [] \<and>
   get_project_analytics True db_pending 1 None None alice 50 = Inl TypeError"
  by (simp add: get_user_analytics_def get_project_analytics_def or_default_def
      user_deployments_in_range_def project_deployments_in_range_def between_def
      owned_project_def db_pending_def db0_def pending_row_def project1_def alice_def)

text \<open>
  Where both dates are offset-aware or both are naive, the claim holds, for given and for
  default dates: if the validator accepts the range (start not after end, at most 365
  days) and no deployment of the user's projects started in it, the user statistics are
  returned, with no deployments and a success rate of 0.
\<close>

lemma user_stats_without_deployments:
  assumes "or_default start_date (Iso (now2 - 30 * microseconds_per_day) False) = Iso start a"
    and "or_default end_date (Iso now1 False) = Iso end' a"
    and "start \<le> end'" "days (end' - start) \<le> 365"
    and "user_deployments_in_range db u start end' = []"
  shows "\<exists>r. get_user_analytics db start_date end_date u now1 now2 = Inr r \<and>
             us_total_deployments r = 0 \<and> us_success_rate r = 0"
  using assms
  by (simp add: get_user_analytics_def success_rate_zero round2_0 count_statuses_nil
      avg_deployment_time_def deployment_times_def get_or_def)

text \<open>The same of the statistics of a project the user owns.\<close>

lemma project_stats_without_deployments:
  assumes "owned_project db pid u = Some p"
    and "or_default start_date (Iso (p_created_at p) aware_columns) = Iso start a"
    and "or_default end_date (Iso now False) = Iso end' a"
    and "start \<le> end'" "days (end' - start) \<le> 365"
    and "project_deployments_in_range db pid start end' = []"
  shows "\<exists>r. get_project_analytics aware_columns db pid start_date end_date u now = Inr r \<and>
             ps_total_deployments r = 0 \<and> ps_success_rate r = 0"
  using assms
  by (simp add: get_project_analytics_def success_rate_zero round2_0 count_statuses_nil
      avg_deployment_time_def deployment_times_def get_or_def)

text \<open>
  The call without date parameters, on a database with naive columns: the two clock
  readings give a range of 29 or 30 days, which the validator accepts.
\<close>

lemma user_stats_default_dates:
  assumes "now1 \<le> now2" "now2 - now1 \<le> 30 * microseconds_per_day"
    and "user_deployments_in_range db u (now2 - 30 * microseconds_per_day) now1 = []"
  shows "\<exists>r. get_user_analytics db None None u now1 now2 = Inr r \<and>
             us_total_deployments r = 0 \<and> us_success_rate r = 0"
proof (rule user_stats_without_deployments)
  show "or_default None (Iso (now2 - 30 * microseconds_per_day) False)
          = Iso (now2 - 30 * microseconds_per_day) False"
    by (simp add: or_default_def)
  show "or_default None (Iso now1 False) = Iso now1 False"
    by (simp add: or_default_def)
  show "now2 - 30 * microseconds_per_day \<le> now1" using assms(2) by simp
  have "now1 - (now2 - 30 * microseconds_per_day) \<le> 30 * microseconds_per_day"
    using assms(1) by simp
  then have "days (now1 - (now2 - 30 * microseconds_per_day)) \<le> 30"
    unfolding days_def microseconds_per_day_def
    by (simp add: zdiv_mono1[of _ "30 * 86400000000" 86400000000, simplified])
  then show "days (now1 - (now2 - 30 * microseconds_per_day)) \<le> 365" by simp
  show "user_deployments_in_range db u (now2 - 30 * microseconds_per_day) now1 = []"
    by (rule assms(3))
qed

text \<open>
  C7, as the code has it. In the admin overview, when last month's count of new users is
  zero, the reported growth percentage is 100, whatever this month's count is.
\<close>

theorem growth_prior_zero:
  assumes "get_admin_overview month_start db u now = Inr r" "new_users_last_month r = 0"
  shows "user_growth_percentage r = 100"
  using assms
  by (auto simp: get_admin_overview_def user_growth_def round2_100 Let_def
      split: sum.splits if_splits)

lemmas overview_defs = get_admin_overview_def require_admin_def carol_def alice_def
  db_quiet_def db_growing_def day100_def month30_def microseconds_per_day_def Let_def
  success_rate_def user_growth_def round2_0 round2_100

theorem growth_prior_zero_witness:
  "(\<exists>r. get_admin_overview month30 db_growing carol day100 = Inr r \<and>
        new_users_last_month r = 0 \<and> new_users_this_month r = 1 \<and>
        user_growth_percentage r = 100)"
proof -
  let ?r = "\<lparr>total_users = 2, active_users_last_30_days = 1, total_projects = 0,
             total_deployments = 0, deployment_success_rate = 0,
             new_users_this_month = 1, new_users_last_month = 0,
             user_growth_percentage = 100\<rparr>"
  have e: "get_admin_overview month30 db_growing carol day100 = Inr ?r"
    by (simp add: overview_defs)
  have z: "new_users_last_month ?r = 0" by simp
  from growth_prior_zero[OF e z] e show ?thesis by simp
qed

text \<open>
  C7, as the claim has it, fails: with no new user in either month the claim reports a
  growth of 0, the code one of 100.
\<close>

theorem growth_no_new_users_counterexample:
  "get_admin_overview month30 db_quiet carol day100 = Inr overview_quiet \<and>
   new_users_last_month overview_quiet = 0 \<and>
   new_users_this_month overview_quiet = 0 \<and>
   user_growth_percentage overview_quiet \<noteq> 0"
  by (simp add: overview_defs overview_quiet_def)

section \<open>Logout\<close>

text \<open>
  C10. Whatever bearer string the caller presents (so also a valid access token of any
  user), logout answers with its success message, and the refresh tokens left are those of
  before whose token string is not the one of the request body, whoever owns them: no row
  with that token string is left, and no other row is touched. The users are as before.
\<close>

theorem logout_deletes_by_token:
  "snd (logout db rt (Some bearer)) = Inr ''Successfully logged out'' \<and>
   refresh_tokens (fst (logout db rt (Some bearer)))
     = filter (\<lambda>t. token t \<noteq> rt) (refresh_tokens db) \<and>
   (\<forall>t \<in> set (refresh_tokens (fst (logout db rt (Some bearer)))). token t \<noteq> rt) \<and>
   users (fst (logout db rt (Some bearer))) = users db"
  by (simp add: logout_def)

theorem logout_deletes_by_token_witness:
  "map t_user_id (refresh_tokens db0) = [u_id alice] \<and>
   snd (logout db0 ''rt-alice'' (Some ''access-token-of-bob'')) = Inr ''Successfully logged out'' \<and>
   refresh_tokens (fst (logout db0 ''rt-alice'' (Some ''access-token-of-bob''))) = [] \<and>
   snd (logout db0 ''no-such-token'' (Some ''access-token-of-bob''))
     = Inr ''Successfully logged out'' \<and>
   refresh_tokens (fst (logout db0 ''no-such-token'' (Some ''access-token-of-bob'')))
     = refresh_tokens db0"
  using logout_deletes_by_token[of db0 "''rt-alice''" "''access-token-of-bob''"]
    logout_deletes_by_token[of db0 "''no-such-token''" "''access-token-of-bob''"]
  by (simp add: db0_def alice_def)

section \<open>Rate limiting\<close>

lemma is_rate_limited_allowed:
  assumes "\<forall>x \<in> set (history rl ip). now - x < 60"
    and "length (history rl ip) < requests_per_minute rl"
  shows "is_rate_limited rl ip now
           = (rl\<lparr>requests := (requests rl)(ip \<mapsto> history rl ip @ [now])\<rparr>, Inr (False, 0))"
proof -
  have k: "(case requests rl ip of Some reqs \<Rightarrow> filter (\<lambda>req_time. now - req_time < 60) reqs
            | None \<Rightarrow> []) = history rl ip"
    using assms(1) by (auto simp: history_def get_or_def split: option.splits)
  show ?thesis
    unfolding is_rate_limited_def k Let_def using assms(2) by simp
qed

lemma is_rate_limited_limited:
  assumes "\<forall>x \<in> set (history rl ip). now - x < 60"
    and "length (history rl ip) \<ge> requests_per_minute rl"
    and "history rl ip = t # ts"
  shows "is_rate_limited rl ip now
           = (rl\<lparr>requests := (requests rl)(ip \<mapsto> t # ts)\<rparr>,
              Inr (True, py_int (60 - (now - Min (set (t # ts))))))"
proof -
  have k: "(case requests rl ip of Some reqs \<Rightarrow> filter (\<lambda>req_time. now - req_time < 60) reqs
            | None \<Rightarrow> []) = t # ts"
    using assms(1,3) by (auto simp: history_def get_or_def split: option.splits)
  have m: "fold min ts t = Min (set (t # ts))" by (rule Min.set_eq_fold[symmetric])
  show ?thesis
    unfolding is_rate_limited_def k Let_def using assms(2,3) m by simp
qed


lemma middleware_allowed:
  assumes "limited_path request" "client_of request = ip"
    and "\<forall>x \<in> set (history rl ip). now - x < 60"
    and "length (history rl ip) < requests_per_minute rl"
  shows "history (fst (rate_limit_middleware rl request call_next now)) ip = history rl ip @ [now]"
    and "requests_per_minute (fst (rate_limit_middleware rl request call_next now))
           = requests_per_minute rl"
    and "outcome (snd (rate_limit_middleware rl request call_next now))
           = outcome (Inr (call_next request))"
  using assms is_rate_limited_allowed[OF assms(3,4)]
  by (simp_all add: rate_limit_middleware_def limited_path_def client_of_def history_def
      get_or_def outcome_def)

lemma middleware_limited:
  assumes "limited_path request" "client_of request = ip"
    and "\<forall>x \<in> set (history rl ip). now - x < 60"
    and "length (history rl ip) \<ge> requests_per_minute rl"
    and "history rl ip = t # ts"
  shows "outcome (snd (rate_limit_middleware rl request call_next now))
           = (429, Some (py_int (60 - (now - Min (set (t # ts))))))"
  using assms is_rate_limited_limited[OF assms(3,4,5)]
  by (simp add: rate_limit_middleware_def limited_path_def client_of_def outcome_def)

lemma serve_Cons:
  "serve rl call_next ((now, request) # rest)
     = (fst (serve (fst (rate_limit_middleware rl request call_next now)) call_next rest),
        snd (rate_limit_middleware rl request call_next now)
          # snd (serve (fst (rate_limit_middleware rl request call_next now)) call_next rest))"
  by (simp split: prod.splits)

lemma serve_append:
  "serve rl call_next (xs @ ys)
     = (fst (serve (fst (serve rl call_next xs)) call_next ys),
        snd (serve rl call_next xs) @ snd (serve (fst (serve rl call_next xs)) call_next ys))"
proof (induction xs arbitrary: rl)
  case Nil
  then show ?case by simp
next
  case (Cons a xs)
  obtain now request where a: "a = (now, request)" by (cases a)
  show ?case unfolding a append_Cons serve_Cons Cons.IH by simp
qed

lemma serve_within_limit:
  assumes "\<forall>(t, r) \<in> set reqs. limited_path r \<and> client_of r = ip"
    and "\<forall>x \<in> set (history rl ip @ map fst reqs). \<forall>y \<in> set (map fst reqs). y - x < 60"
    and "length (history rl ip) + length reqs \<le> requests_per_minute rl"
  shows "history (fst (serve rl call_next reqs)) ip = history rl ip @ map fst reqs \<and>
         requests_per_minute (fst (serve rl call_next reqs)) = requests_per_minute rl \<and>
         map outcome (snd (serve rl call_next reqs))
           = map (\<lambda>(t, r). outcome (Inr (call_next r))) reqs"
  using assms
proof (induction reqs arbitrary: rl)
  case Nil
  then show ?case by simp
next
  case (Cons a reqs)
  obtain now request where a: "a = (now, request)" by (cases a)
  let ?rl1 = "fst (rate_limit_middleware rl request call_next now)"
  have p: "limited_path request" "client_of request = ip" using Cons.prems(1) a by auto
  have w: "\<forall>x \<in> set (history rl ip). now - x < 60" using Cons.prems(2) a by auto
  have l: "length (history rl ip) < requests_per_minute rl" using Cons.prems(3) by simp
  note m = middleware_allowed[OF p w l, of call_next]
  have "history ?rl1 ip @ map fst reqs = history rl ip @ map fst (a # reqs)"
    using m(1) a by simp
  have ih: "history (fst (serve ?rl1 call_next reqs)) ip = history ?rl1 ip @ map fst reqs \<and>
         requests_per_minute (fst (serve ?rl1 call_next reqs)) = requests_per_minute ?rl1 \<and>
         map outcome (snd (serve ?rl1 call_next reqs))
           = map (\<lambda>(t, r). outcome (Inr (call_next r))) reqs"
  proof (rule Cons.IH)
    show "\<forall>(t, r) \<in> set reqs. limited_path r \<and> client_of r = ip" using Cons.prems(1) by simp
    show "\<forall>x \<in> set (history ?rl1 ip @ map fst reqs). \<forall>y \<in> set (map fst reqs). y - x < 60"
      using Cons.prems(2) m(1) a by auto
    show "length (history ?rl1 ip) + length reqs \<le> requests_per_minute ?rl1"
      using Cons.prems(3) m(1,2) by simp
  qed
  show ?case unfolding a serve_Cons using ih m a by simp
qed


text \<open>
  A client with no earlier requests sends 61 requests to rate-limited paths, at times that
  do not decrease, the last less than 60 seconds after the first. The first 60 get the
  application's own response; the 61st is answered 429 with a Retry-After of the whole
  seconds left until the first request leaves the window.
\<close>

lemma sixty_one_requests_in_window:
  assumes "requests_per_minute rl = 60" "history rl ip = []"
    and "length reqs = 60"
    and "\<forall>(t, r) \<in> set reqs. limited_path r \<and> client_of r = ip"
    and "limited_path q" "client_of q = ip"
    and "sorted (map fst reqs @ [T])"
    and "T - fst (hd reqs) < 60"
  shows "map outcome (snd (serve rl call_next (reqs @ [(T, q)])))
           = map (\<lambda>(t, r). outcome (Inr (call_next r))) reqs
               @ [(429, Some (py_int (60 - (T - fst (hd reqs)))))]"
proof -
  let ?ts = "map fst reqs"
  have ne: "reqs \<noteq> []" using assms(3) by auto
  then obtain t ts where ts: "?ts = t # ts" by (cases reqs) auto
  have t: "t = fst (hd reqs)" using ts ne by (cases reqs) auto
  have srt: "sorted ?ts" and le_T: "\<forall>x \<in> set ?ts. x \<le> T"
    using assms(7) by (auto simp: sorted_append)
  have lo: "\<forall>x \<in> set ?ts. t \<le> x" using srt ts by auto
  have win: "\<forall>x \<in> set ?ts. \<forall>y \<in> set ?ts. y - x < 60"
  proof (intro ballI)
    fix x y assume "x \<in> set ?ts" "y \<in> set ?ts"
    then have "t \<le> x" "y \<le> T" using lo le_T by auto
    then show "y - x < 60" using assms(8) t by linarith
  qed
  have pre: "history (fst (serve rl call_next reqs)) ip = history rl ip @ ?ts \<and>
         requests_per_minute (fst (serve rl call_next reqs)) = requests_per_minute rl \<and>
         map outcome (snd (serve rl call_next reqs))
           = map (\<lambda>(t, r). outcome (Inr (call_next r))) reqs"
    using assms(4) by (rule serve_within_limit) (use win assms(1,2,3) in auto)
  let ?rl1 = "fst (serve rl call_next reqs)"
  have h1: "history ?rl1 ip = t # ts" using pre assms(2) ts by simp
  have w1: "\<forall>x \<in> set (history ?rl1 ip). T - x < 60"
  proof
    fix x assume "x \<in> set (history ?rl1 ip)"
    then have "x \<in> set ?ts" using h1 ts by simp
    then have "t \<le> x" using lo by auto
    then show "T - x < 60" using assms(8) t by linarith
  qed
  have l1: "requests_per_minute ?rl1 \<le> length (history ?rl1 ip)"
    using pre assms(1,2,3) by simp
  have mn: "Min (set (t # ts)) = t"
    using lo ts by (intro Min_eqI) auto
  have last: "outcome (snd (rate_limit_middleware ?rl1 q call_next T))
           = (429, Some (py_int (60 - (T - t))))"
    using middleware_limited[OF assms(5,6) w1 l1 h1, of call_next] mn by simp
  show ?thesis
    unfolding serve_append using pre last t by (simp add: serve_Cons del: serve.simps(2))
qed

text \<open>
  That number is never negative, and it is 0 exactly when the 61st request comes more than
  59 seconds after the first.
\<close>

lemma retry_after_of_window:
  assumes "0 \<le> d" "d < 60"
  shows "0 \<le> py_int (60 - d) \<and> (py_int (60 - d) = 0 \<longleftrightarrow> 59 < d)"
  using assms by (auto simp: py_int_def floor_eq_iff)

text \<open>
  C9. One client sends 60 requests at time 0 and a 61st at 59.5 seconds, all to a
  rate-limited path. The first 60 are passed on (status 200 of the application); the 61st
  is answered 429, with a Retry-After of 0: the half second left in the window is cut off
  by \<^verbatim>\<open>int\<close>. A retry at once, as that value advises, is answered 429 again.
\<close>

theorem retry_after_zero_in_last_second:
  "map outcome (snd (serve rate_limiter0 (\<lambda>r. ok_response)
                      (replicate 60 (0, req1) @ [(119 / 2, req1), (119 / 2 + 0, req1)])))
     = replicate 60 (200, None) @ [(429, Some 0), (429, Some 0)]"
  by code_simp

end
